theory Spec2Isabelle
  imports Main
begin

section \<open>Values that cross the HTTP boundary\<close>

text \<open>
  The payloads the client receives are untyped (\<^verbatim>\<open>any\<close>) results of \<^verbatim>\<open>JSON.parse\<close>.
  They are modelled as a datatype of JavaScript values. An object is an association list
  read with \<open>map_of\<close>; \<open>JUndefined\<close> is what reading an absent property gives. The
  client never computes with a number; it only passes it on or converts it to a string, so
  a number is given by the string JavaScript prints for it.
\<close>

datatype jsval =
    JUndefined
  | JNull
  | JBool bool
  | JNum string
  | JStr string
  | JArr "jsval list"
  | JObj "(string \<times> jsval) list"

text \<open>
  Property access \<^verbatim>\<open>data.key\<close> for the keys the reader uses (\<^verbatim>\<open>type\<close>,
  \<^verbatim>\<open>content\<close>, \<^verbatim>\<open>action\<close>): \<open>None\<close> stands for the TypeError that
  JavaScript throws on \<^verbatim>\<open>null\<close> and \<^verbatim>\<open>undefined\<close>; every other value that is
  not an object has no such property.
\<close>

fun get_prop :: "jsval \<Rightarrow> string \<Rightarrow> jsval option" where
  "get_prop JUndefined k = None"
| "get_prop JNull k = None"
| "get_prop (JObj kvs) k = Some (case map_of kvs k of None \<Rightarrow> JUndefined | Some v \<Rightarrow> v)"
| "get_prop v k = Some JUndefined"

fun show_nat :: "nat \<Rightarrow> string" where
  "show_nat n =
     (if n < 10 then [char_of (48 + n)]
      else show_nat (n div 10) @ [char_of (48 + n mod 10)])"

fun join_comma :: "string list \<Rightarrow> string" where
  "join_comma [] = []"
| "join_comma [s] = s"
| "join_comma (s # t # ss) = s @ '','' @ join_comma (t # ss)"

text \<open>
  The string that \<^verbatim>\<open>fullContent += v\<close> appends, \<open>None\<close> when the conversion
  throws a TypeError. A string is appended as it is. An object parsed from JSON converts
  through \<^verbatim>\<open>Object.prototype.toString\<close>, unless it has a property \<^verbatim>\<open>toString\<close>
  of its own: that property is a JSON value, so it cannot be called, and the conversion
  throws. An array joins the conversions of its elements with commas, \<^verbatim>\<open>null\<close> and
  \<^verbatim>\<open>undefined\<close> giving the empty string, and throws when an element does.
\<close>

fun js_to_string :: "jsval \<Rightarrow> string option"
  and js_elems :: "jsval list \<Rightarrow> string list option" where
  "js_to_string JUndefined = Some ''undefined''"
| "js_to_string JNull = Some ''null''"
| "js_to_string (JBool b) = Some (if b then ''true'' else ''false'')"
| "js_to_string (JNum n) = Some n"
| "js_to_string (JStr s) = Some s"
| "js_to_string (JArr xs) = map_option join_comma (js_elems xs)"
| "js_to_string (JObj kvs) =
     (if map_of kvs ''toString'' = None then Some ''[object Object]'' else None)"
| "js_elems [] = Some []"
| "js_elems (x # xs) =
     (case (if x = JNull \<or> x = JUndefined then Some [] else js_to_string x) of
        None \<Rightarrow> None
      | Some s \<Rightarrow> (case js_elems xs of None \<Rightarrow> None | Some ss \<Rightarrow> Some (s # ss)))"

section \<open>The API client: data model\<close>

record codessa_config =
  apiEndpoint :: string
  apiKey :: string
  streamResponses :: bool

record chat_context =
  workspaceRoot :: "string option"
  activeFile :: "string option"
  selectedText :: "string option"
  openFiles :: "string list option"

record chat_request =
  message :: string
  reqContext :: "chat_context option"
  stream :: "bool option"

record chat_response =
  content :: string
  actions :: "jsval list"

text \<open>
  What a promise is rejected with: an \<^verbatim>\<open>Error\<close> the client constructs itself, or the
  failure of the HTTP layer passed on as it is (given by its rendering as a string).
\<close>

datatype rejection = NewError string | Upstream string

datatype promise = Pending | Resolved chat_response | Rejected rejection

text \<open>Everything the streaming reader does to the outside world, in the order it does it.\<close>

datatype effect =
    EsOpen string "(string \<times> string) list"
  | EsClose
  | HttpPost string chat_request
  | OnChunk jsval
  | OnAction jsval
  | ConsoleError string
  | Settled

text \<open>
  The caller's callbacks. A callback's own work is outside this client; what the reader
  can observe of a call is whether it returns (\<open>True\<close>) or throws (\<open>False\<close>).
  \<^verbatim>\<open>onAction\<close> is optional.
\<close>

record callbacks =
  onChunk :: "jsval \<Rightarrow> bool"
  onAction :: "(jsval \<Rightarrow> bool) option"

record stream_state =
  fullContent :: string
  actionsAcc :: "jsval list"
  promise :: promise
  trace :: "effect list"

section \<open>The streaming reader\<close>

definition emit :: "effect \<Rightarrow> stream_state \<Rightarrow> stream_state" where
  "emit e st = st\<lparr>trace := trace st @ [e]\<rparr>"

text \<open>Settling a promise a second time has no effect.\<close>

definition resolve :: "chat_response \<Rightarrow> stream_state \<Rightarrow> stream_state" where
  "resolve r st = (if promise st = Pending then st\<lparr>promise := Resolved r\<rparr> else st)"

definition reject :: "rejection \<Rightarrow> stream_state \<Rightarrow> stream_state" where
  "reject e st = (if promise st = Pending then st\<lparr>promise := Rejected e\<rparr> else st)"

definition bearer :: "string \<Rightarrow> string" where
  "bearer key = (if key \<noteq> [] then ''Bearer '' @ key else [])"

text \<open>
  The argument of \<open>onmessage\<close> is \<^verbatim>\<open>JSON.parse(event.data)\<close>: \<open>None\<close> when the
  parser throws. Every exception inside the handler is caught and logged: the parser's,
  the TypeError of reading a property of \<^verbatim>\<open>null\<close>, the TypeError of a content that
  does not convert to a string (then \<^verbatim>\<open>fullContent\<close> keeps its value and
  \<^verbatim>\<open>onChunk\<close> is not called), and whatever a callback throws.
\<close>

definition onmessage :: "callbacks \<Rightarrow> jsval option \<Rightarrow> stream_state \<Rightarrow> stream_state" where
  "onmessage cb parsed st =
     (case parsed of
        None \<Rightarrow> emit (ConsoleError ''Error parsing stream data:'') st
      | Some data \<Rightarrow>
          (case get_prop data ''type'' of
             None \<Rightarrow> emit (ConsoleError ''Error parsing stream data:'') st
           | Some ty \<Rightarrow>
               if ty = JStr ''content'' then
                 (let c = (case get_prop data ''content'' of None \<Rightarrow> JUndefined | Some v \<Rightarrow> v)
                  in case js_to_string c of
                       None \<Rightarrow> emit (ConsoleError ''Error parsing stream data:'') st
                     | Some s \<Rightarrow>
                         (let st1 = emit (OnChunk c) (st\<lparr>fullContent := fullContent st @ s\<rparr>)
                          in if onChunk cb c then st1
                             else emit (ConsoleError ''Error parsing stream data:'') st1))
               else if ty = JStr ''action'' \<and> onAction cb \<noteq> None then
                 (let a = (case get_prop data ''action'' of None \<Rightarrow> JUndefined | Some v \<Rightarrow> v);
                      st1 = emit (OnAction a) (st\<lparr>actionsAcc := actionsAcc st @ [a]\<rparr>)
                  in if (case onAction cb of None \<Rightarrow> True | Some f \<Rightarrow> f a) then st1
                     else emit (ConsoleError ''Error parsing stream data:'') st1)
               else if ty = JStr ''done'' then
                 resolve \<lparr>content = fullContent st, actions = actionsAcc st\<rparr> (emit EsClose st)
               else st))"

definition onerror :: "stream_state \<Rightarrow> stream_state" where
  "onerror st =
     reject (NewError ''Stream connection failed'')
       (emit EsClose (emit (ConsoleError ''EventSource error:'') st))"

text \<open>
  The body of the promise: the event source is opened with its headers, the two handlers
  are installed, and the initiate request is posted.
\<close>

definition stream_start :: "codessa_config \<Rightarrow> chat_request \<Rightarrow> stream_state" where
  "stream_start cfg request =
     \<lparr>fullContent = [], actionsAcc = [], promise = Pending,
      trace =
        [EsOpen (apiEndpoint cfg @ ''/chat/stream'')
           [(''Authorization'', bearer (apiKey cfg)), (''Content-Type'', ''application/json'')],
         HttpPost ''/chat/stream/init'' (request\<lparr>stream := Some True\<rparr>)]\<rparr>"

text \<open>
  What the event loop can deliver to one streaming call: a message of the event source,
  its transport error, the failure of the initiate request, and the completion of the work
  that a call of \<^verbatim>\<open>onAction\<close> returned. The reader holds no reference to that work,
  so its completion reaches no code of the reader; it is only noted in the trace.
\<close>

datatype stream_event =
    Message "jsval option"
  | TransportError
  | InitFailed string
  | HandlerSettled

definition closed :: "stream_state \<Rightarrow> bool" where
  "closed st = (EsClose \<in> set (trace st))"

text \<open>
  The event source is a library object: once \<^verbatim>\<open>close\<close> has been called on it, it
  delivers no further message and no further error. The failure of the initiate request
  comes from the HTTP client and arrives whether the event source is closed or not.
\<close>

definition stream_step :: "callbacks \<Rightarrow> stream_state \<Rightarrow> stream_event \<Rightarrow> stream_state" where
  "stream_step cb st ev =
     (case ev of
        Message parsed \<Rightarrow> if closed st then st else onmessage cb parsed st
      | TransportError \<Rightarrow> if closed st then st else onerror st
      | InitFailed err \<Rightarrow> reject (Upstream err) st
      | HandlerSettled \<Rightarrow> emit Settled st)"

definition streamChatMessage ::
  "codessa_config \<Rightarrow> chat_request \<Rightarrow> callbacks \<Rightarrow> stream_event list \<Rightarrow> stream_state" where
  "streamChatMessage cfg request cb evs = foldl (stream_step cb) (stream_start cfg request) evs"

text \<open>
  The synchronous path. \<open>post\<close> is the transport (\<^verbatim>\<open>this.client.post\<close>): it gives
  the response's \<^verbatim>\<open>data\<close>, or fails with a cause given by its rendering as a string.
\<close>

record 'r sync_result =
  result :: "rejection + 'r"
  posts :: "(string \<times> chat_request) list"
  console :: "string list"

definition sendChatMessageSync ::
  "(string \<Rightarrow> chat_request \<Rightarrow> string + 'r) \<Rightarrow> chat_request \<Rightarrow> 'r sync_result" where
  "sendChatMessageSync post request =
     (let body = request\<lparr>stream := Some False\<rparr>
      in case post ''/chat'' body of
           Inr data \<Rightarrow> \<lparr>result = Inr data, posts = [(''/chat'', body)], console = []\<rparr>
         | Inl err \<Rightarrow>
             \<lparr>result = Inl (NewError (''Failed to send chat message: '' @ err)),
              posts = [(''/chat'', body)],
              console = [''Error sending chat message:'']\<rparr>)"

datatype 'r chat_outcome = ViaStream stream_state | ViaSync "'r sync_result"

text \<open>
  \<open>cfg\<close> is \<^verbatim>\<open>this.config\<close> of a constructed client. The events are those the event
  loop delivers to the call when it takes the streaming path.
\<close>

definition sendChatMessage ::
  "codessa_config \<Rightarrow> (string \<Rightarrow> chat_request \<Rightarrow> string + 'r) \<Rightarrow> chat_request \<Rightarrow>
   (jsval \<Rightarrow> bool) option \<Rightarrow> (jsval \<Rightarrow> bool) option \<Rightarrow> stream_event list \<Rightarrow> 'r chat_outcome" where
  "sendChatMessage cfg post request chunk action evs =
     (case chunk of
        Some f \<Rightarrow>
          if streamResponses cfg
          then ViaStream (streamChatMessage cfg request \<lparr>onChunk = f, onAction = action\<rparr> evs)
          else ViaSync (sendChatMessageSync post request)
      | None \<Rightarrow> ViaSync (sendChatMessageSync post request))"

section \<open>Configuration\<close>

text \<open>
  The settings provider: each setting is a value or unset, and
  \<^verbatim>\<open>vscodeConfig.get(key, default)\<close> gives the default for an unset one.
\<close>

record settings =
  set_apiEndpoint :: "string option"
  set_apiKey :: "string option"
  set_streamResponses :: "bool option"

definition get_setting :: "'a option \<Rightarrow> 'a \<Rightarrow> 'a" where
  "get_setting v dflt = (case v of None \<Rightarrow> dflt | Some x \<Rightarrow> x)"

text \<open>
  The request defaults of the shared HTTP client: the base URL, the timeout, the headers
  given at creation and the headers common to every method.
\<close>

record axios_instance =
  baseURL :: "string option"
  timeout :: nat
  headers :: "string \<rightharpoonup> string"
  common :: "string \<rightharpoonup> string"

text \<open>The two fields of the client object; each is undefined until it is first assigned.\<close>

record api_client =
  config :: "codessa_config option"
  client :: "axios_instance option"

definition updateConfiguration :: "settings \<Rightarrow> api_client \<Rightarrow> api_client" where
  "updateConfiguration s self =
     (let cfg = \<lparr>apiEndpoint = get_setting (set_apiEndpoint s) ''https://api.codessa.dev'',
                 apiKey = get_setting (set_apiKey s) [],
                 streamResponses = get_setting (set_streamResponses s) True\<rparr>
      in \<lparr>config = Some cfg,
          client =
            (case client self of
               None \<Rightarrow> None
             | Some ax \<Rightarrow>
                 Some (ax\<lparr>baseURL := Some (apiEndpoint cfg),
                          common := (common ax)(''Authorization'' \<mapsto> bearer (apiKey cfg))\<rparr>))\<rparr>)"

text \<open>
  \<^verbatim>\<open>axios.create\<close> with the options the constructor passes. The library's own common
  default is the \<^verbatim>\<open>Accept\<close> header.
\<close>

definition axios_create :: axios_instance where
  "axios_create =
     \<lparr>baseURL = None, timeout = 30000,
      headers = [''Content-Type'' \<mapsto> ''application/json'',
                 ''User-Agent'' \<mapsto> ''VSCode-Codessa-Extension/0.1.0''],
      common = [''Accept'' \<mapsto> ''application/json, text/plain, */*'']\<rparr>"

definition constructor :: "settings \<Rightarrow> api_client" where
  "constructor s =
     (updateConfiguration s \<lparr>config = None, client = None\<rparr>)\<lparr>client := Some axios_create\<rparr>"

section \<open>Reading a stream of envelopes\<close>

text \<open>
  The protocol's view of one message: its \<^verbatim>\<open>type\<close> discriminator and its fields,
  \<open>JUndefined\<close> where the payload is not valid JSON or the field cannot be read.
\<close>

definition env_field :: "string \<Rightarrow> jsval option \<Rightarrow> jsval" where
  "env_field k m =
     (case m of
        None \<Rightarrow> JUndefined
      | Some d \<Rightarrow> (case get_prop d k of None \<Rightarrow> JUndefined | Some v \<Rightarrow> v))"

definition env_type :: "jsval option \<Rightarrow> jsval" where
  "env_type m = env_field ''type'' m"

definition is_done :: "jsval option \<Rightarrow> bool" where
  "is_done m = (env_type m = JStr ''done'')"

text \<open>
  What a message adds to the content, and the value \<^verbatim>\<open>onChunk\<close> is called with: both
  nothing unless the message is a content envelope whose content converts to a string.
\<close>

definition chunk_text :: "jsval option \<Rightarrow> string" where
  "chunk_text m =
     (if env_type m = JStr ''content''
      then (case js_to_string (env_field ''content'' m) of None \<Rightarrow> [] | Some s \<Rightarrow> s)
      else [])"

definition chunk_of :: "jsval option \<Rightarrow> jsval list" where
  "chunk_of m =
     (if env_type m = JStr ''content'' \<and> js_to_string (env_field ''content'' m) \<noteq> None
      then [env_field ''content'' m] else [])"

definition action_of :: "jsval option \<Rightarrow> jsval list" where
  "action_of m = (if env_type m = JStr ''action'' then [env_field ''action'' m] else [])"

text \<open>
  A message the protocol does not know: its payload is not valid JSON, or its type is none
  of \<^verbatim>\<open>content\<close>, \<^verbatim>\<open>action\<close> and \<^verbatim>\<open>done\<close>.
\<close>

definition unrecognized :: "jsval option \<Rightarrow> bool" where
  "unrecognized m =
     (env_type m \<noteq> JStr ''content'' \<and> env_type m \<noteq> JStr ''action'' \<and> env_type m \<noteq> JStr ''done'')"

text \<open>The payload is valid JSON and its \<^verbatim>\<open>type\<close> can be read without a TypeError.\<close>

definition readable :: "jsval option \<Rightarrow> bool" where
  "readable m = (case m of None \<Rightarrow> False | Some d \<Rightarrow> get_prop d ''type'' \<noteq> None)"

definition is_call :: "effect \<Rightarrow> bool" where
  "is_call e = (case e of OnChunk c \<Rightarrow> True | OnAction a \<Rightarrow> True | _ \<Rightarrow> False)"

definition is_log :: "effect \<Rightarrow> bool" where
  "is_log e = (case e of ConsoleError s \<Rightarrow> True | _ \<Rightarrow> False)"

text \<open>The callback invocations of a call, in the order they were made.\<close>

definition calls :: "stream_state \<Rightarrow> effect list" where
  "calls st = filter is_call (trace st)"

definition calls_of :: "callbacks \<Rightarrow> jsval option \<Rightarrow> effect list" where
  "calls_of cb m =
     map OnChunk (chunk_of m) @ (if onAction cb = None then [] else map OnAction (action_of m))"

definition content_envelope :: "string \<Rightarrow> jsval" where
  "content_envelope c = JObj [(''type'', JStr ''content''), (''content'', JStr c)]"

definition action_envelope :: "jsval \<Rightarrow> jsval" where
  "action_envelope a = JObj [(''type'', JStr ''action''), (''action'', a)]"

definition done_envelope :: jsval where
  "done_envelope = JObj [(''type'', JStr ''done'')]"

text \<open>
  Back-pressure as the specification words it, read off a trace: no callback is invoked
  for an envelope while the work returned by an earlier \<^verbatim>\<open>onAction\<close> call has not
  completed. The number is the count of such calls still at work.
\<close>

fun awaits_actions :: "nat \<Rightarrow> effect list \<Rightarrow> bool" where
  "awaits_actions p [] = True"
| "awaits_actions p (OnAction a # es) = (p = 0 \<and> awaits_actions (Suc p) es)"
| "awaits_actions p (OnChunk c # es) = (p = 0 \<and> awaits_actions p es)"
| "awaits_actions p (Settled # es) = awaits_actions (p - 1) es"
| "awaits_actions p (e # es) = awaits_actions p es"

text \<open>A state with some of its effects (the log lines, say) left out of the trace.\<close>

definition without :: "(effect \<Rightarrow> bool) \<Rightarrow> stream_state \<Rightarrow> stream_state" where
  "without hide st = st\<lparr>trace := filter (\<lambda>e. \<not> hide e) (trace st)\<rparr>"

fun open_headers :: "effect list \<Rightarrow> (string \<times> string) list" where
  "open_headers [] = []"
| "open_headers (EsOpen url hs # es) = hs @ open_headers es"
| "open_headers (e # es) = open_headers es"

definition is_open :: "effect \<Rightarrow> bool" where
  "is_open e = (case e of EsOpen url hs \<Rightarrow> True | _ \<Rightarrow> False)"




text \<open>The actions of the response a promise was resolved with.\<close>

definition resolved_actions :: "promise \<Rightarrow> jsval list option" where
  "resolved_actions p = (case p of Resolved r \<Rightarrow> Some (actions r) | _ \<Rightarrow> None)"

text \<open>
  The value a header has in the request defaults of the client, and the base URL there;
  \<open>None\<close> when it is absent.
\<close>

definition default_header :: "string \<Rightarrow> api_client \<Rightarrow> string option" where
  "default_header name self =
     (case client self of
        None \<Rightarrow> None
      | Some ax \<Rightarrow> (case common ax name of Some v \<Rightarrow> Some v | None \<Rightarrow> headers ax name))"

definition default_baseURL :: "api_client \<Rightarrow> string option" where
  "default_baseURL self = (case client self of None \<Rightarrow> None | Some ax \<Rightarrow> baseURL ax)"

text \<open>
  \<^verbatim>\<open>this.config\<close> as the methods read it. The constructor assigns it before any method
  can run; the other branch is never taken on a constructed client.
\<close>

definition held_config :: "api_client \<Rightarrow> codessa_config" where
  "held_config self =
     (case config self of
        Some cfg \<Rightarrow> cfg
      | None \<Rightarrow> \<lparr>apiEndpoint = [], apiKey = [], streamResponses = False\<rparr>)"

subsection \<open>Example inputs\<close>

definition returning :: "jsval \<Rightarrow> bool" where
  "returning v = True"

definition both_callbacks :: callbacks where
  "both_callbacks = \<lparr>onChunk = returning, onAction = Some returning\<rparr>"

definition chunk_only :: callbacks where
  "chunk_only = \<lparr>onChunk = returning, onAction = None\<rparr>"

definition hello_request :: chat_request where
  "hello_request = \<lparr>message = ''Hello, world!'', reqContext = None, stream = None\<rparr>"

definition test_config :: codessa_config where
  "test_config =
     \<lparr>apiEndpoint = ''https://api.codessa.dev'', apiKey = ''test-api-key'', streamResponses = True\<rparr>"

definition edit_action :: jsval where
  "edit_action = JObj [(''type'', JStr ''edit''), (''target'', JStr ''test.ts'')]"

definition sync_config :: codessa_config where
  "sync_config =
     \<lparr>apiEndpoint = ''https://api.codessa.dev'', apiKey = ''test-api-key'', streamResponses = False\<rparr>"

definition failing_backend :: "string \<Rightarrow> chat_request \<Rightarrow> string + chat_response" where
  "failing_backend path body = Inl ''Error: Network error''"

definition ping_envelope :: jsval where
  "ping_envelope = JObj [(''type'', JStr ''ping'')]"

definition hello_backend :: "string \<Rightarrow> chat_request \<Rightarrow> string + chat_response" where
  "hello_backend path body = Inr \<lparr>content = ''Hello! How can I help?'', actions = []\<rparr>"

definition old_key_settings :: settings where
  "old_key_settings =
     \<lparr>set_apiEndpoint = Some ''https://new-api.codessa.dev'', set_apiKey = Some ''old-key'',
      set_streamResponses = None\<rparr>"

definition no_key_settings :: settings where
  "no_key_settings = \<lparr>set_apiEndpoint = None, set_apiKey = Some [], set_streamResponses = None\<rparr>"

section \<open>Policy checks\<close>

record uri =
  scheme :: string
  fsPath :: string

record text_document =
  doc_uri :: uri
  fileName :: string
  getText :: string
  languageId :: string

record policy_check_request =
  filePath :: string
  fileContent :: string
  language :: string

record vs_range =
  startLine :: int
  startCharacter :: int
  endLine :: int
  endCharacter :: int

record policy_fix =
  description :: string
  edits :: "(vs_range \<times> string) list"

record policy_violation =
  v_rule :: string
  v_severity :: string
  v_message :: string
  v_line :: int
  v_column :: int
  v_endLine :: "int option"
  v_endColumn :: "int option"
  v_fix :: "policy_fix option"

datatype diagnostic_severity = DsError | DsWarning | DsInformation | DsHint

record diagnostic =
  d_range :: vs_range
  d_message :: string
  d_severity :: diagnostic_severity
  d_source :: string
  d_code :: string
  d_fix :: "policy_fix option"

definition mapSeverity :: "string \<Rightarrow> diagnostic_severity" where
  "mapSeverity sev =
     (if sev = ''error'' then DsError
      else if sev = ''warning'' then DsWarning
      else if sev = ''info'' then DsInformation
      else DsHint)"

text \<open>
  One violation as a diagnostic. An end position that is absent or zero is falsy in
  JavaScript and gives the fallback. The positions are kept as the arithmetic gives them;
  what the editor does with a position it rejects is outside this repository.
\<close>

definition to_diagnostic :: "policy_violation \<Rightarrow> diagnostic" where
  "to_diagnostic v =
     \<lparr>d_range =
        \<lparr>startLine = v_line v - 1,
         startCharacter = v_column v - 1,
         endLine =
           (case v_endLine v of
              Some e \<Rightarrow> if e \<noteq> 0 then e - 1 else v_line v - 1
            | None \<Rightarrow> v_line v - 1),
         endCharacter =
           (case v_endColumn v of
              Some e \<Rightarrow> if e \<noteq> 0 then e - 1 else v_column v + 10
            | None \<Rightarrow> v_column v + 10)\<rparr>,
      d_message = ''['' @ v_rule v @ ''] '' @ v_message v,
      d_severity = mapSeverity (v_severity v),
      d_source = ''GitGuard'',
      d_code = v_rule v,
      d_fix = v_fix v\<rparr>"

text \<open>How a rejection reads inside a template string.\<close>

definition render :: "rejection \<Rightarrow> string" where
  "render e = (case e of NewError msg \<Rightarrow> ''Error: '' @ msg | Upstream s \<Rightarrow> s)"

definition checkPolicies ::
  "(policy_check_request \<Rightarrow> string + policy_violation list) \<Rightarrow> policy_check_request \<Rightarrow>
   rejection + policy_violation list" where
  "checkPolicies post request =
     (case post request of
        Inr violations \<Rightarrow> Inr violations
      | Inl err \<Rightarrow> Inl (NewError (''Failed to check policies: '' @ err)))"

text \<open>
  The editor as the scan sees it: the open workspace folders, the files that
  \<^verbatim>\<open>findFiles\<close> gives, opening a document (which can fail), and the policy endpoint
  behind \<^verbatim>\<open>checkPolicies\<close>.
\<close>

record host =
  workspaceFolders :: "string list option"
  findFiles :: "uri list"
  openTextDocument :: "uri \<Rightarrow> string + text_document"
  policyBackend :: "policy_check_request \<Rightarrow> string + policy_violation list"

datatype ui_effect =
    ShowWarningMessage string
  | ShowErrorMessage string
  | ShowInformationMessage string
  | ProgressReport nat nat
  | ConsoleErr string

text \<open>
  The state a scan works on: the diagnostics collection, the policy checks sent to the
  backend, what was shown or logged, and whether the progress notification is up (it is
  while the task given to \<^verbatim>\<open>withProgress\<close> runs).
\<close>

record scan_state =
  diagnosticCollection :: "uri \<rightharpoonup> diagnostic list"
  checkRequests :: "policy_check_request list"
  ui :: "ui_effect list"
  progressShown :: bool

definition updateDiagnostics :: "uri \<Rightarrow> policy_violation list \<Rightarrow> scan_state \<Rightarrow> scan_state" where
  "updateDiagnostics u violations st =
     st\<lparr>diagnosticCollection := (diagnosticCollection st)(u \<mapsto> map to_diagnostic violations)\<rparr>"

definition checkDocumentPolicies :: "host \<Rightarrow> text_document \<Rightarrow> scan_state \<Rightarrow> scan_state" where
  "checkDocumentPolicies h document st =
     (if scheme (doc_uri document) \<noteq> ''file'' then st
      else
        (let request = \<lparr>filePath = fileName document, fileContent = getText document,
                        language = languageId document\<rparr>;
             st1 = st\<lparr>checkRequests := checkRequests st @ [request]\<rparr>
         in case checkPolicies (policyBackend h) request of
              Inr violations \<Rightarrow> updateDiagnostics (doc_uri document) violations st1
            | Inl e \<Rightarrow>
                st1\<lparr>ui := ui st1 @
                  [ConsoleErr ''Error checking policies:'',
                   ConsoleErr ''Error checking policies for document:'',
                   ShowErrorMessage (''Failed to check policies: '' @ render e)]\<rparr>))"

text \<open>
  The loop over the files. \<open>token c\<close> is what \<^verbatim>\<open>token.isCancellationRequested\<close>
  reads when \<open>c\<close> files have been processed: the scan is the only code that runs between
  two reads, so the flag can change only while a file is being processed.
\<close>

fun scan_files ::
  "host \<Rightarrow> (nat \<Rightarrow> bool) \<Rightarrow> nat \<Rightarrow> uri list \<Rightarrow> nat \<Rightarrow> scan_state \<Rightarrow> nat \<times> scan_state" where
  "scan_files h token total_files [] completed st = (completed, st)"
| "scan_files h token total_files (file # files) completed st =
     (if token completed then (completed, st)
      else
        (let st1 = (case openTextDocument h file of
                      Inr document \<Rightarrow> checkDocumentPolicies h document st
                    | Inl err \<Rightarrow>
                        st\<lparr>ui := ui st @ [ConsoleErr (''Error checking policies for '' @ fsPath file @ '':'')]\<rparr>);
             st2 = st1\<lparr>ui := ui st1 @ [ProgressReport (completed + 1) total_files]\<rparr>
         in scan_files h token total_files files (completed + 1) st2))"

definition checkAllPolicies :: "host \<Rightarrow> (nat \<Rightarrow> bool) \<Rightarrow> scan_state \<Rightarrow> scan_state" where
  "checkAllPolicies h token st =
     (case workspaceFolders h of
        None \<Rightarrow> st\<lparr>ui := ui st @ [ShowWarningMessage ''No workspace folder open'']\<rparr>
      | Some folders \<Rightarrow>
          (let files = findFiles h;
               (completed, st1) =
                 scan_files h token (length files) files 0 (st\<lparr>progressShown := True\<rparr>);
               st2 = (if \<not> token completed
                      then st1\<lparr>ui := ui st1 @
                             [ShowInformationMessage
                                (''Policy check completed. Checked '' @ show_nat completed @ '' files.'')]\<rparr>
                      else st1)
           in st2\<lparr>progressShown := False\<rparr>))"

text \<open>
  When the cancellation is requested, for a scan that has processed \<open>k\<close> files by then:
  between two files (before the loop reads the flag for the next file), or while the next
  file is being opened or checked (after the loop has read the flag for it).
\<close>

datatype cancel_moment = BetweenFiles nat | WhileOpening nat | WhileChecking nat

text \<open>What the loop reads from the token when \<open>c\<close> files have been processed.\<close>

fun token_of :: "cancel_moment \<Rightarrow> nat \<Rightarrow> bool" where
  "token_of (BetweenFiles k) c = (k \<le> c)"
| "token_of (WhileOpening k) c = (k < c)"
| "token_of (WhileChecking k) c = (k < c)"

text \<open>The file in hand when the request arrives is finished.\<close>

fun files_finished :: "cancel_moment \<Rightarrow> nat" where
  "files_finished (BetweenFiles k) = k"
| "files_finished (WhileOpening k) = Suc k"
| "files_finished (WhileChecking k) = Suc k"

subsection \<open>An example workspace\<close>

definition file_uri :: "string \<Rightarrow> uri" where
  "file_uri path = \<lparr>scheme = ''file'', fsPath = path\<rparr>"

definition sample_violation :: policy_violation where
  "sample_violation =
     \<lparr>v_rule = ''no-secrets'', v_severity = ''error'', v_message = ''Hardcoded secret'',
      v_line = 3, v_column = 5, v_endLine = None, v_endColumn = None, v_fix = None\<rparr>"

text \<open>A workspace of three files; the backend reports one violation in each file it is asked about.\<close>

definition sample_host :: host where
  "sample_host =
     \<lparr>workspaceFolders = Some [''/ws''],
      findFiles = [file_uri ''/ws/a.ts'', file_uri ''/ws/b.ts'', file_uri ''/ws/c.ts''],
      openTextDocument =
        (\<lambda>u. Inr \<lparr>doc_uri = u, fileName = fsPath u, getText = ''let x = 1'', languageId = ''typescript''\<rparr>),
      policyBackend = (\<lambda>r. Inr [sample_violation])\<rparr>"

definition empty_scan :: scan_state where
  "empty_scan =
     \<lparr>diagnosticCollection = Map.empty, checkRequests = [], ui = [], progressShown = False\<rparr>"

section \<open>Facts about the streaming reader\<close>

lemma closed_simps [simp]:
  "closed (emit e st) = (e = EsClose \<or> closed st)"
  "closed (st\<lparr>fullContent := f\<rparr>) = closed st"
  "closed (st\<lparr>actionsAcc := a\<rparr>) = closed st"
  "closed (st\<lparr>promise := p\<rparr>) = closed st"
  by (auto simp: closed_def emit_def)

lemma closed_resolve_reject [simp]:
  "closed (resolve r st) = closed st" "closed (reject e st) = closed st"
  by (simp_all add: resolve_def reject_def)

lemma emit_fields [simp]:
  "trace (emit e st) = trace st @ [e]"
  "promise (emit e st) = promise st"
  "fullContent (emit e st) = fullContent st"
  "actionsAcc (emit e st) = actionsAcc st"
  by (simp_all add: emit_def)

lemma reject_fields [simp]:
  "trace (reject e st) = trace st"
  "fullContent (reject e st) = fullContent st"
  "actionsAcc (reject e st) = actionsAcc st"
  by (simp_all add: reject_def)

lemma get_prop_readable:
  assumes "readable (Some d)"
  shows "get_prop d k = Some (env_field k (Some d))"
  using assms by (cases d) (simp_all add: readable_def env_field_def)

lemma get_prop_unreadable:
  assumes "\<not> readable (Some d)"
  shows "get_prop d k = None"
  using assms by (cases d) (simp_all add: readable_def)

lemma env_field_unreadable:
  assumes "\<not> readable m"
  shows "env_field k m = JUndefined"
proof (cases m)
  case None
  then show ?thesis by (simp add: env_field_def)
next
  case (Some d)
  then show ?thesis using get_prop_unreadable [of d k] assms by (simp add: env_field_def)
qed

text \<open>The handler of a message, in terms of what the protocol sees of the message.\<close>

lemma onmessage_by_type:
  "onmessage cb m st =
     (if \<not> readable m then emit (ConsoleError ''Error parsing stream data:'') st
      else if env_type m = JStr ''content'' then
        (case js_to_string (env_field ''content'' m) of
           None \<Rightarrow> emit (ConsoleError ''Error parsing stream data:'') st
         | Some s \<Rightarrow>
             if onChunk cb (env_field ''content'' m)
             then emit (OnChunk (env_field ''content'' m))
                    (st\<lparr>fullContent := fullContent st @ s\<rparr>)
             else emit (ConsoleError ''Error parsing stream data:'')
                    (emit (OnChunk (env_field ''content'' m))
                       (st\<lparr>fullContent := fullContent st @ s\<rparr>)))
      else if env_type m = JStr ''action'' \<and> onAction cb \<noteq> None then
        (if (case onAction cb of None \<Rightarrow> True | Some f \<Rightarrow> f (env_field ''action'' m))
         then emit (OnAction (env_field ''action'' m))
                (st\<lparr>actionsAcc := actionsAcc st @ [env_field ''action'' m]\<rparr>)
         else emit (ConsoleError ''Error parsing stream data:'')
                (emit (OnAction (env_field ''action'' m))
                   (st\<lparr>actionsAcc := actionsAcc st @ [env_field ''action'' m]\<rparr>)))
      else if env_type m = JStr ''done'' then
        resolve \<lparr>content = fullContent st, actions = actionsAcc st\<rparr> (emit EsClose st)
      else st)"
proof (cases m)
  case None
  then show ?thesis by (simp add: onmessage_def readable_def)
next
  case (Some d)
  show ?thesis
  proof (cases "readable (Some d)")
    case True
    have t: "get_prop d ''type'' = Some (env_type (Some d))"
      and c: "get_prop d ''content'' = Some (env_field ''content'' (Some d))"
      and a: "get_prop d ''action'' = Some (env_field ''action'' (Some d))"
      using get_prop_readable [OF True] by (simp_all add: env_type_def)
    show ?thesis
      unfolding Some onmessage_def
      by (simp only: t c a True option.case Let_def not_True_eq_False if_False)
  next
    case False
    have t: "get_prop d ''type'' = None"
      using get_prop_unreadable [OF False] .
    show ?thesis
      unfolding Some onmessage_def
      by (simp only: t False option.case not_False_eq_True if_True)
  qed
qed

lemma type_facts:
  "is_done m \<Longrightarrow> readable m"
  "is_done m \<Longrightarrow> env_type m \<noteq> JStr ''content''"
  "is_done m \<Longrightarrow> env_type m \<noteq> JStr ''action''"
  "\<not> readable m \<Longrightarrow> env_type m = JUndefined"
  using env_field_unreadable [of m "''type''"]
  by (auto simp: is_done_def env_type_def)

lemma onmessage_not_done:
  assumes "\<not> is_done m"
  shows "fullContent (onmessage cb m st) = fullContent st @ chunk_text m"
    and "actionsAcc (onmessage cb m st) =
           actionsAcc st @ (if onAction cb = None then [] else action_of m)"
    and "promise (onmessage cb m st) = promise st"
    and "closed (onmessage cb m st) = closed st"
    and "calls (onmessage cb m st) = calls st @ calls_of cb m"
    and "filter is_open (trace (onmessage cb m st)) = filter is_open (trace st)"
  using assms type_facts(4) [of m]
  by (auto simp: onmessage_by_type is_done_def chunk_of_def chunk_text_def action_of_def
      calls_of_def calls_def is_call_def is_open_def split: option.splits)

lemma onmessage_done:
  assumes "is_done m"
  shows "onmessage cb m st =
           resolve \<lparr>content = fullContent st, actions = actionsAcc st\<rparr> (emit EsClose st)"
  using assms type_facts(1-3) [OF assms]
  by (simp add: onmessage_by_type is_done_def)

text \<open>What a run of messages, none of them the done envelope, leaves behind.\<close>

lemma run_messages:
  assumes "\<not> closed st" and "list_all (\<lambda>m. \<not> is_done m) ms"
  shows "fullContent (foldl (stream_step cb) st (map Message ms)) =
           fullContent st @ concat (map chunk_text ms)
       \<and> actionsAcc (foldl (stream_step cb) st (map Message ms)) =
           actionsAcc st @ (if onAction cb = None then [] else concat (map action_of ms))
       \<and> promise (foldl (stream_step cb) st (map Message ms)) = promise st
       \<and> \<not> closed (foldl (stream_step cb) st (map Message ms))
       \<and> calls (foldl (stream_step cb) st (map Message ms)) =
           calls st @ concat (map (calls_of cb) ms)
       \<and> filter is_open (trace (foldl (stream_step cb) st (map Message ms))) =
           filter is_open (trace st)"
  using assms
proof (induction ms arbitrary: st)
  case Nil
  then show ?case by simp
next
  case (Cons m ms)
  have nd: "\<not> is_done m" and rest: "list_all (\<lambda>m. \<not> is_done m) ms"
    using Cons.prems(2) by simp_all
  have step: "stream_step cb st (Message m) = onmessage cb m st"
    using Cons.prems(1) by (simp add: stream_step_def)
  have open': "\<not> closed (onmessage cb m st)"
    using Cons.prems(1) onmessage_not_done(4)[OF nd] by simp
  show ?case
    using Cons.IH[OF open' rest] onmessage_not_done[OF nd, of cb st]
    by (simp add: step)
qed

section \<open>Configuration and the request defaults\<close>

text \<open>
  C10. Right after the constructor returns, the request defaults of the shared HTTP client
  hold no base URL and no Authorization header, whatever endpoint and credential the
  settings provider supplied: \<open>updateConfiguration\<close> runs while the client is still
  undefined, so only the held configuration is set. A later call of
  \<open>updateConfiguration\<close> puts the endpoint and the credential into the defaults.
\<close>

theorem constructor_leaves_defaults_unset:
  "default_baseURL (constructor s) = None
   \<and> default_header ''Authorization'' (constructor s) = None
   \<and> config (constructor s) =
       Some \<lparr>apiEndpoint = get_setting (set_apiEndpoint s) ''https://api.codessa.dev'',
             apiKey = get_setting (set_apiKey s) [],
             streamResponses = get_setting (set_streamResponses s) True\<rparr>
   \<and> default_baseURL (updateConfiguration s (constructor s)) =
       Some (get_setting (set_apiEndpoint s) ''https://api.codessa.dev'')
   \<and> default_header ''Authorization'' (updateConfiguration s (constructor s)) =
       Some (if get_setting (set_apiKey s) [] = [] then []
             else ''Bearer '' @ get_setting (set_apiKey s) [])"
  by (simp add: constructor_def updateConfiguration_def axios_create_def default_baseURL_def
      default_header_def held_config_def bearer_def Let_def)

theorem constructor_leaves_defaults_unset_witness:
  "default_baseURL (constructor old_key_settings) = None
   \<and> default_header ''Authorization'' (constructor old_key_settings) = None
   \<and> config (constructor old_key_settings) =
       Some \<lparr>apiEndpoint = ''https://new-api.codessa.dev'', apiKey = ''old-key'',
             streamResponses = True\<rparr>
   \<and> default_baseURL (updateConfiguration old_key_settings (constructor old_key_settings)) =
       Some ''https://new-api.codessa.dev''
   \<and> default_header ''Authorization''
         (updateConfiguration old_key_settings (constructor old_key_settings)) =
       Some ''Bearer old-key''"
  using constructor_leaves_defaults_unset [of old_key_settings]
  by (simp add: old_key_settings_def get_setting_def)

text \<open>
  C8, as stated: after \<open>updateConfiguration\<close> with an empty credential, requests carry
  no Authorization header at all. The code stores the empty string under the header
  instead, as this run shows: a client configured with a key is refreshed with an empty one.
\<close>

theorem empty_credential_counterexample:
  "default_header ''Authorization''
     (updateConfiguration no_key_settings
        (updateConfiguration old_key_settings (constructor old_key_settings))) = Some []
   \<and> default_header ''Authorization''
     (updateConfiguration no_key_settings
        (updateConfiguration old_key_settings (constructor old_key_settings))) \<noteq> None
   \<and> map_of (open_headers (trace (stream_start
        (held_config (updateConfiguration no_key_settings (constructor old_key_settings)))
        hello_request))) ''Authorization'' = Some []"
  by (simp add: constructor_def updateConfiguration_def axios_create_def default_header_def
      held_config_def bearer_def stream_start_def no_key_settings_def old_key_settings_def
      get_setting_def Let_def)

text \<open>
  C8, amended. After \<open>updateConfiguration\<close> on a client whose HTTP client exists, the
  Authorization default is \<^verbatim>\<open>Bearer <credential>\<close> when the settings give a non-empty
  credential, and the empty string when the credential is absent or empty: the header is
  present with an empty value, and no earlier token survives. The event source of a
  streaming call opened under that configuration gets the same header value.
\<close>

theorem authorization_follows_credential:
  assumes "client self = Some ax0"
  shows "default_header ''Authorization'' (updateConfiguration s self) =
           Some (if get_setting (set_apiKey s) [] = [] then []
                 else ''Bearer '' @ get_setting (set_apiKey s) [])
       \<and> map_of (open_headers (trace (stream_start (held_config (updateConfiguration s self))
            request))) ''Authorization'' =
           Some (if get_setting (set_apiKey s) [] = [] then []
                 else ''Bearer '' @ get_setting (set_apiKey s) [])"
  using assms
  by (simp add: updateConfiguration_def default_header_def held_config_def bearer_def
      stream_start_def Let_def)

theorem authorization_follows_credential_witness:
  "client (updateConfiguration old_key_settings (constructor old_key_settings)) =
     Some (axios_create\<lparr>baseURL := Some ''https://new-api.codessa.dev'',
             common := (common axios_create)(''Authorization'' \<mapsto> ''Bearer old-key'')\<rparr>)
   \<and> default_header ''Authorization''
       (updateConfiguration no_key_settings
          (updateConfiguration old_key_settings (constructor old_key_settings))) = Some []
   \<and> default_header ''Authorization''
       (updateConfiguration old_key_settings
          (updateConfiguration old_key_settings (constructor old_key_settings))) =
       Some ''Bearer old-key''"
proof -
  have h: "client (updateConfiguration old_key_settings (constructor old_key_settings)) =
     Some (axios_create\<lparr>baseURL := Some ''https://new-api.codessa.dev'',
             common := (common axios_create)(''Authorization'' \<mapsto> ''Bearer old-key'')\<rparr>)"
    by (simp add: constructor_def updateConfiguration_def old_key_settings_def get_setting_def
        bearer_def Let_def)
  show ?thesis
    using h authorization_follows_credential [OF h, of no_key_settings hello_request]
      authorization_follows_credential [OF h, of old_key_settings hello_request]
    by (simp add: no_key_settings_def old_key_settings_def get_setting_def)
qed

section \<open>Streaming: what the promise resolves with\<close>

lemma sendChatMessage_streaming:
  assumes "streamResponses cfg"
  shows "sendChatMessage cfg post request (Some f) act evs =
           ViaStream (streamChatMessage cfg request \<lparr>onChunk = f, onAction = act\<rparr> evs)"
  using assms by (simp add: sendChatMessage_def)

lemma stream_start_facts [simp]:
  "\<not> closed (stream_start cfg request)"
  "promise (stream_start cfg request) = Pending"
  "fullContent (stream_start cfg request) = []"
  "actionsAcc (stream_start cfg request) = []"
  "calls (stream_start cfg request) = []"
  "length (filter is_open (trace (stream_start cfg request))) = 1"
  by (simp_all add: stream_start_def closed_def calls_def is_call_def is_open_def)

lemma done_step:
  assumes "\<not> closed st" and "promise st = Pending" and "is_done d"
  shows "promise (stream_step cb st (Message d)) =
           Resolved \<lparr>content = fullContent st, actions = actionsAcc st\<rparr>"
    and "calls (stream_step cb st (Message d)) = calls st"
    and "closed (stream_step cb st (Message d))"
  using assms
  by (simp_all add: stream_step_def onmessage_done resolve_def emit_def calls_def is_call_def
      closed_def)

lemma content_messages:
  assumes "list_all2 (\<lambda>m c. env_type m = JStr ''content'' \<and> env_field ''content'' m = JStr c) ms cs"
  shows "list_all (\<lambda>m. \<not> is_done m) ms"
    and "concat (map chunk_text ms) = concat cs"
    and "concat (map action_of ms) = []"
    and "concat (map (calls_of cb) ms) = map (\<lambda>c. OnChunk (JStr c)) cs"
  using assms
  by (induction ms cs rule: list_all2_induct)
     (simp_all add: is_done_def chunk_of_def chunk_text_def action_of_def calls_of_def)

text \<open>
  C1. When the stream delivers content envelopes \<open>c1..cn\<close> and then a done envelope,
  the promise that \<open>sendChatMessage\<close> returns in streaming mode resolves with the
  content \<open>c1 @ ... @ cn\<close>, and the callbacks invoked are exactly \<open>n\<close> calls of
  \<^verbatim>\<open>onChunk\<close>, one per envelope, with the \<open>ci\<close> in arrival order.
\<close>

theorem streamed_content_is_concatenation:
  assumes "streamResponses cfg"
    and "list_all2 (\<lambda>m c. env_type m = JStr ''content'' \<and> env_field ''content'' m = JStr c) ms cs"
    and "is_done d"
  shows "sendChatMessage cfg post request (Some f) act (map Message ms @ [Message d]) =
           ViaStream (streamChatMessage cfg request \<lparr>onChunk = f, onAction = act\<rparr>
             (map Message ms @ [Message d]))
       \<and> promise (streamChatMessage cfg request \<lparr>onChunk = f, onAction = act\<rparr>
             (map Message ms @ [Message d])) =
           Resolved \<lparr>content = concat cs, actions = []\<rparr>
       \<and> calls (streamChatMessage cfg request \<lparr>onChunk = f, onAction = act\<rparr>
             (map Message ms @ [Message d])) =
           map (\<lambda>c. OnChunk (JStr c)) cs"
proof -
  let ?cb = "\<lparr>onChunk = f, onAction = act\<rparr>"
  let ?mid = "foldl (stream_step ?cb) (stream_start cfg request) (map Message ms)"
  have run: "fullContent ?mid = concat cs" "actionsAcc ?mid = []" "promise ?mid = Pending"
    "\<not> closed ?mid" "calls ?mid = map (\<lambda>c. OnChunk (JStr c)) cs"
    using run_messages [of "stream_start cfg request" ms ?cb]
      content_messages [OF assms(2)]
    by simp_all
  have whole: "streamChatMessage cfg request ?cb (map Message ms @ [Message d]) =
      stream_step ?cb ?mid (Message d)"
    by (simp add: streamChatMessage_def)
  show ?thesis
    using done_step [OF run(4) run(3) assms(3), of ?cb] run
    by (simp add: whole sendChatMessage_streaming [OF assms(1)])
qed

theorem streamed_content_is_concatenation_witness:
  "promise (streamChatMessage test_config hello_request both_callbacks
      [Message (Some (content_envelope ''Hello! '')),
       Message (Some (content_envelope ''How can I help?'')),
       Message (Some done_envelope)]) =
     Resolved \<lparr>content = ''Hello! How can I help?'', actions = []\<rparr>
   \<and> calls (streamChatMessage test_config hello_request both_callbacks
      [Message (Some (content_envelope ''Hello! '')),
       Message (Some (content_envelope ''How can I help?'')),
       Message (Some done_envelope)]) =
     [OnChunk (JStr ''Hello! ''), OnChunk (JStr ''How can I help?'')]"
proof -
  have a: "streamResponses test_config" by (simp add: test_config_def)
  have b: "list_all2 (\<lambda>m c. env_type m = JStr ''content'' \<and> env_field ''content'' m = JStr c)
      [Some (content_envelope ''Hello! ''), Some (content_envelope ''How can I help?'')]
      [''Hello! '', ''How can I help?'']"
    by (simp add: env_type_def env_field_def content_envelope_def)
  have c: "is_done (Some done_envelope)"
    by (simp add: is_done_def env_type_def env_field_def done_envelope_def)
  show ?thesis
    using streamed_content_is_concatenation [OF a b c, of hello_backend hello_request returning "Some returning"]
    by (simp add: both_callbacks_def)
qed

section \<open>Streaming: actions\<close>

text \<open>
  C4, as stated: the resolved actions are those of the action envelopes received, whether
  or not an \<^verbatim>\<open>onAction\<close> callback was supplied. Without the callback the reader skips
  action envelopes altogether: here one edit action arrives and the response has none.
\<close>

theorem actions_without_handler_counterexample:
  "sendChatMessage test_config hello_backend hello_request (Some returning) None
     [Message (Some (action_envelope edit_action)), Message (Some done_envelope)] =
     ViaStream (streamChatMessage test_config hello_request chunk_only
       [Message (Some (action_envelope edit_action)), Message (Some done_envelope)])
   \<and> promise (streamChatMessage test_config hello_request chunk_only
       [Message (Some (action_envelope edit_action)), Message (Some done_envelope)]) =
     Resolved \<lparr>content = [], actions = []\<rparr>
   \<and> concat (map action_of [Some (action_envelope edit_action)]) = [edit_action]"
  by (simp add: sendChatMessage_def test_config_def chunk_only_def streamChatMessage_def
      stream_step_def stream_start_def closed_def onmessage_def action_envelope_def
      done_envelope_def resolve_def emit_def action_of_def env_type_def env_field_def)

text \<open>
  C4, amended. In a streaming call to which an \<^verbatim>\<open>onAction\<close> callback was supplied,
  for every sequence of messages that holds no done envelope, followed by a done envelope,
  the promise is resolved and the actions of the response are exactly the actions of the
  action envelopes received, in arrival order. Without the callback, action envelopes are
  skipped and the resolved actions are empty.
\<close>

theorem actions_collected_with_handler:
  assumes "streamResponses cfg"
    and "list_all (\<lambda>m. \<not> is_done m) ms"
    and "is_done d"
  shows "sendChatMessage cfg post request (Some f) act (map Message ms @ [Message d]) =
           ViaStream (streamChatMessage cfg request \<lparr>onChunk = f, onAction = act\<rparr>
             (map Message ms @ [Message d]))
       \<and> resolved_actions (promise (streamChatMessage cfg request \<lparr>onChunk = f, onAction = act\<rparr>
             (map Message ms @ [Message d]))) =
           Some (if act = None then [] else concat (map action_of ms))"
proof -
  let ?cb = "\<lparr>onChunk = f, onAction = act\<rparr>"
  let ?mid = "foldl (stream_step ?cb) (stream_start cfg request) (map Message ms)"
  have run: "actionsAcc ?mid = (if act = None then [] else concat (map action_of ms))"
    "promise ?mid = Pending" "\<not> closed ?mid"
    using run_messages [of "stream_start cfg request" ms ?cb] assms(2)
    by simp_all
  have whole: "streamChatMessage cfg request ?cb (map Message ms @ [Message d]) =
      stream_step ?cb ?mid (Message d)"
    by (simp add: streamChatMessage_def)
  show ?thesis
    using done_step(1) [OF run(3) run(2) assms(3), of ?cb] run(1)
    by (simp add: whole sendChatMessage_streaming [OF assms(1)] resolved_actions_def)
qed

theorem actions_collected_with_handler_witness:
  "resolved_actions (promise (streamChatMessage test_config hello_request both_callbacks
      [Message (Some (content_envelope ''Hello! '')),
       Message (Some (action_envelope edit_action)),
       Message (Some (content_envelope ''How can I help?'')),
       Message (Some (action_envelope (JStr ''second''))),
       Message (Some done_envelope)])) =
     Some [edit_action, JStr ''second'']"
proof -
  have a: "streamResponses test_config" by (simp add: test_config_def)
  have b: "list_all (\<lambda>m. \<not> is_done m)
      [Some (content_envelope ''Hello! ''), Some (action_envelope edit_action),
       Some (content_envelope ''How can I help?''), Some (action_envelope (JStr ''second''))]"
    by (simp add: is_done_def env_type_def env_field_def content_envelope_def
        action_envelope_def)
  have c: "is_done (Some done_envelope)"
    by (simp add: is_done_def env_type_def env_field_def done_envelope_def)
  show ?thesis
    using actions_collected_with_handler
      [OF a b c, of hello_backend hello_request returning "Some returning"]
    by (simp add: both_callbacks_def action_of_def env_type_def env_field_def
        content_envelope_def action_envelope_def)
qed

section \<open>Streaming: failures\<close>

text \<open>
  C5. When the initiate request fails, the promise is rejected with that failure, but the
  event source stays open: this path never calls \<^verbatim>\<open>close\<close>, unlike the handler of a
  transport error and the handling of the done envelope.
\<close>

theorem init_failure_leaves_stream_open:
  "promise (streamChatMessage cfg request cb [InitFailed err]) = Rejected (Upstream err)
   \<and> \<not> closed (streamChatMessage cfg request cb [InitFailed err])
   \<and> filter (\<lambda>e. e = EsClose) (trace (streamChatMessage cfg request cb [InitFailed err])) = []
   \<and> closed (streamChatMessage cfg request cb [TransportError])"
  by (simp add: streamChatMessage_def stream_step_def stream_start_def reject_def closed_def
      onerror_def emit_def)







section \<open>Dispatch and the synchronous path\<close>

text \<open>
  C2. \<open>sendChatMessage\<close> takes the streaming path exactly when the held configuration
  has streaming on and an \<^verbatim>\<open>onChunk\<close> callback was supplied. In every other case it makes
  one POST to \<^verbatim>\<open>/chat\<close> whose body is the request with \<^verbatim>\<open>stream: false\<close> merged in,
  and resolves with the response's data unchanged.
\<close>

theorem dispatch_and_sync_round_trip:
  "(case sendChatMessage cfg post request chunk act evs of
      ViaStream st \<Rightarrow>
        streamResponses cfg
        \<and> (case chunk of
             Some f \<Rightarrow> st = streamChatMessage cfg request \<lparr>onChunk = f, onAction = act\<rparr> evs
           | None \<Rightarrow> False)
    | ViaSync sr \<Rightarrow>
        \<not> (streamResponses cfg \<and> chunk \<noteq> None)
        \<and> posts sr = [(''/chat'', request\<lparr>stream := Some False\<rparr>)]
        \<and> (case post ''/chat'' (request\<lparr>stream := Some False\<rparr>) of
             Inr data \<Rightarrow> result sr = Inr data
           | Inl err \<Rightarrow> result sr = Inl (NewError (''Failed to send chat message: '' @ err))))"
  by (simp add: sendChatMessage_def sendChatMessageSync_def Let_def
      split: option.splits sum.splits)

theorem dispatch_and_sync_round_trip_witness:
  "(case sendChatMessage sync_config hello_backend hello_request (Some returning) None [] of
      ViaStream st \<Rightarrow> False
    | ViaSync sr \<Rightarrow>
        posts sr = [(''/chat'', \<lparr>message = ''Hello, world!'', reqContext = None, stream = Some False\<rparr>)]
        \<and> result sr = Inr \<lparr>content = ''Hello! How can I help?'', actions = []\<rparr>)
   \<and> (case sendChatMessage test_config hello_backend hello_request None None [] of
      ViaStream st \<Rightarrow> False
    | ViaSync sr \<Rightarrow> result sr = Inr \<lparr>content = ''Hello! How can I help?'', actions = []\<rparr>)
   \<and> (case sendChatMessage test_config hello_backend hello_request (Some returning) None [] of
      ViaStream st \<Rightarrow> True
    | ViaSync sr \<Rightarrow> False)
   \<and> (case sendChatMessage sync_config failing_backend hello_request None None [] of
      ViaStream st \<Rightarrow> False
    | ViaSync sr \<Rightarrow>
        result sr = Inl (NewError ''Failed to send chat message: Error: Network error''))"
  using dispatch_and_sync_round_trip [where cfg = sync_config and post = hello_backend
      and request = hello_request and chunk = "Some returning" and act = None and evs = "[]"]
    dispatch_and_sync_round_trip [where cfg = test_config and post = hello_backend
      and request = hello_request and chunk = None and act = None and evs = "[]"]
    dispatch_and_sync_round_trip [where cfg = test_config and post = hello_backend
      and request = hello_request and chunk = "Some returning" and act = None and evs = "[]"]
    dispatch_and_sync_round_trip [where cfg = sync_config and post = failing_backend
      and request = hello_request and chunk = None and act = None and evs = "[]"]
  by (auto simp: sync_config_def test_config_def hello_backend_def failing_backend_def
      hello_request_def split: chat_outcome.splits)

section \<open>Streaming: what the reader ignores\<close>

lemma closed_without [simp]: "\<not> hide EsClose \<Longrightarrow> closed (without hide st) = closed st"
  by (simp add: without_def closed_def)

lemma without_fields [simp]:
  "trace (without hide st) = filter (\<lambda>e. \<not> hide e) (trace st)"
  "promise (without hide st) = promise st"
  "fullContent (without hide st) = fullContent st"
  "actionsAcc (without hide st) = actionsAcc st"
  by (simp_all add: without_def)

lemma without_eqI:
  assumes "filter (\<lambda>e. \<not> hide e) (trace s) = filter (\<lambda>e. \<not> hide e) (trace t)"
    and "promise s = promise t" and "fullContent s = fullContent t"
    and "actionsAcc s = actionsAcc t"
  shows "without hide s = without hide t"
  using assms by (simp add: without_def)

lemma onmessage_without:
  assumes "\<not> hide EsClose"
  shows "without hide (onmessage cb m (without hide st)) = without hide (onmessage cb m st)"
  by (rule without_eqI) (auto simp: onmessage_by_type resolve_def split: option.splits)

lemma onerror_without:
  "without hide (onerror (without hide st)) = without hide (onerror st)"
  by (rule without_eqI) (auto simp: onerror_def emit_def reject_def)

lemma step_without:
  assumes "\<not> hide EsClose"
  shows "without hide (stream_step cb (without hide st) ev) = without hide (stream_step cb st ev)"
proof (cases ev)
  case (Message m)
  then show ?thesis using assms by (simp add: stream_step_def onmessage_without)
next
  case TransportError
  then show ?thesis using assms by (simp add: stream_step_def onerror_without)
next
  case (InitFailed err)
  then show ?thesis
    by (auto simp: stream_step_def reject_def without_def)
next
  case HandlerSettled
  then show ?thesis
    by (auto simp: stream_step_def emit_def without_def)
qed

lemma run_without:
  assumes "\<not> hide EsClose"
  shows "without hide (foldl (stream_step cb) (without hide st) evs) =
         without hide (foldl (stream_step cb) st evs)"
proof (induction evs arbitrary: st)
  case Nil
  show ?case by simp
next
  case (Cons ev evs)
  have "without hide (foldl (stream_step cb) (without hide st) (ev # evs)) =
        without hide (foldl (stream_step cb) (stream_step cb (without hide st) ev) evs)"
    by simp
  also have "\<dots> = without hide (foldl (stream_step cb) (without hide (stream_step cb (without hide st) ev)) evs)"
    using Cons.IH [of "stream_step cb (without hide st) ev"] by simp
  also have "\<dots> = without hide (foldl (stream_step cb) (without hide (stream_step cb st ev)) evs)"
    using assms by (simp add: step_without)
  also have "\<dots> = without hide (foldl (stream_step cb) (stream_step cb st ev) evs)"
    using Cons.IH [of "stream_step cb st ev"] by simp
  finally show ?case by simp
qed

text \<open>Two runs that start from states equal up to the hidden effects end in such states.\<close>

lemma run_cong_without:
  assumes "\<not> hide EsClose" and "without hide s = without hide t"
  shows "without hide (foldl (stream_step cb) s evs) = without hide (foldl (stream_step cb) t evs)"
  using run_without [where hide = hide and cb = cb and st = s and evs = evs]
    run_without [where hide = hide and cb = cb and st = t and evs = evs] assms
  by simp

lemma calls_without_log [simp]: "calls (without is_log st) = calls st"
proof -
  have "filter is_call (filter (\<lambda>e. \<not> is_log e) tr) = filter is_call tr" for tr
    by (induction tr) (auto simp: is_call_def is_log_def split: effect.splits)
  then show ?thesis by (simp add: calls_def)
qed

lemma unrecognized_step:
  assumes "unrecognized m"
  shows "stream_step cb st (Message m) =
           (if closed st \<or> readable m then st
            else emit (ConsoleError ''Error parsing stream data:'') st)"
  using assms
  by (simp add: stream_step_def onmessage_by_type unrecognized_def)

lemma unrecognized_step_without:
  assumes "unrecognized m"
  shows "without is_log (stream_step cb st (Message m)) = without is_log st"
  by (simp add: unrecognized_step [OF assms] without_def emit_def is_log_def)

text \<open>
  C7, as stated: every message that is not valid JSON or has an unknown type is logged and
  ignored. A message of an unknown type is ignored without a log line: after it the trace
  is what it was.
\<close>

theorem unknown_type_counterexample:
  "unrecognized (Some ping_envelope)
   \<and> streamChatMessage test_config hello_request both_callbacks [Message (Some ping_envelope)] =
     streamChatMessage test_config hello_request both_callbacks []
   \<and> filter is_log (trace (streamChatMessage test_config hello_request both_callbacks
        [Message (Some ping_envelope)])) = []"
  by (simp add: unrecognized_def env_type_def env_field_def ping_envelope_def
      streamChatMessage_def stream_step_def stream_start_def closed_def onmessage_def is_log_def)

text \<open>
  C7, amended. A message whose payload is not valid JSON, or whose type is none of content,
  action and done, does not abort the stream: with it put anywhere among the events, the
  promise settles the same way and the callbacks are invoked with the same values in the
  same order as without it; the two runs differ in log lines only. The reader writes a log
  line for such a message when the payload is not valid JSON or is \<^verbatim>\<open>null\<close>; a
  payload with an unknown or missing type is ignored without a log line.
\<close>

theorem unrecognized_messages_are_ignored:
  assumes "unrecognized m"
  shows "without is_log (streamChatMessage cfg request cb (xs @ [Message m] @ ys)) =
           without is_log (streamChatMessage cfg request cb (xs @ ys))
       \<and> promise (streamChatMessage cfg request cb (xs @ [Message m] @ ys)) =
           promise (streamChatMessage cfg request cb (xs @ ys))
       \<and> calls (streamChatMessage cfg request cb (xs @ [Message m] @ ys)) =
           calls (streamChatMessage cfg request cb (xs @ ys))
       \<and> stream_step cb st (Message m) =
           (if closed st \<or> readable m then st
            else emit (ConsoleError ''Error parsing stream data:'') st)"
proof -
  let ?mid = "foldl (stream_step cb) (stream_start cfg request) xs"
  have keep: "\<not> is_log EsClose" by (simp add: is_log_def)
  have eq: "without is_log (foldl (stream_step cb) (stream_step cb ?mid (Message m)) ys) =
            without is_log (foldl (stream_step cb) ?mid ys)"
    using keep unrecognized_step_without [OF assms, of cb ?mid]
    by (rule run_cong_without)
  then have main: "without is_log (streamChatMessage cfg request cb (xs @ [Message m] @ ys)) =
           without is_log (streamChatMessage cfg request cb (xs @ ys))"
    by (simp add: streamChatMessage_def)
  have p: "promise (streamChatMessage cfg request cb (xs @ [Message m] @ ys)) =
           promise (streamChatMessage cfg request cb (xs @ ys))"
    using arg_cong [OF main, of promise] by simp
  have c: "calls (streamChatMessage cfg request cb (xs @ [Message m] @ ys)) =
           calls (streamChatMessage cfg request cb (xs @ ys))"
    using arg_cong [OF main, of calls] by simp
  show ?thesis
    using main p c unrecognized_step [OF assms, of cb st] by simp
qed

theorem unrecognized_messages_are_ignored_witness:
  "promise (streamChatMessage test_config hello_request both_callbacks
      ([Message (Some (content_envelope ''Hello! ''))] @ [Message None] @
       [Message (Some (action_envelope edit_action)), Message (Some done_envelope)])) =
     Resolved \<lparr>content = ''Hello! '', actions = [edit_action]\<rparr>
   \<and> calls (streamChatMessage test_config hello_request both_callbacks
      ([Message (Some (content_envelope ''Hello! ''))] @ [Message None] @
       [Message (Some (action_envelope edit_action)), Message (Some done_envelope)])) =
     [OnChunk (JStr ''Hello! ''), OnAction edit_action]"
proof -
  have a: "unrecognized None"
    by (simp add: unrecognized_def env_type_def env_field_def)
  have b: "promise (streamChatMessage test_config hello_request both_callbacks
      ([Message (Some (content_envelope ''Hello! ''))] @
       [Message (Some (action_envelope edit_action)), Message (Some done_envelope)])) =
     Resolved \<lparr>content = ''Hello! '', actions = [edit_action]\<rparr>
   \<and> calls (streamChatMessage test_config hello_request both_callbacks
      ([Message (Some (content_envelope ''Hello! ''))] @
       [Message (Some (action_envelope edit_action)), Message (Some done_envelope)])) =
     [OnChunk (JStr ''Hello! ''), OnAction edit_action]"
    by (simp add: streamChatMessage_def stream_step_def stream_start_def closed_def
        onmessage_def content_envelope_def action_envelope_def done_envelope_def
        both_callbacks_def returning_def resolve_def emit_def calls_def is_call_def)
  show ?thesis
    using unrecognized_messages_are_ignored [OF a, of test_config hello_request both_callbacks
        "[Message (Some (content_envelope ''Hello! ''))]"
        "[Message (Some (action_envelope edit_action)), Message (Some done_envelope)]"] b
    by simp
qed

section \<open>Streaming: the work of an action handler\<close>

text \<open>
  C3. The specification asks that the reader does not handle the next envelope before the
  work returned by the action handler has completed. The reader calls the handler and
  drops what it returns: here a content envelope follows an action envelope, no
  completion of the handler's work is delivered in between, and \<^verbatim>\<open>onChunk\<close> is
  invoked all the same.
\<close>

theorem action_handler_not_awaited:
  "\<not> awaits_actions 0 (trace (streamChatMessage test_config hello_request both_callbacks
      [Message (Some (action_envelope edit_action)), Message (Some (content_envelope ''x''))]))
   \<and> calls (streamChatMessage test_config hello_request both_callbacks
      [Message (Some (action_envelope edit_action)), Message (Some (content_envelope ''x''))]) =
     [OnAction edit_action, OnChunk (JStr ''x'')]"
  by (simp add: streamChatMessage_def stream_step_def stream_start_def closed_def
      onmessage_def content_envelope_def action_envelope_def both_callbacks_def returning_def
      emit_def calls_def is_call_def)

section \<open>The bulk policy scan under cancellation\<close>

text \<open>The part of the state that outlives a scan: what was sent and what was diagnosed.\<close>

lemma checkDocumentPolicies_core:
  assumes "diagnosticCollection s = diagnosticCollection t"
    and "checkRequests s = checkRequests t" and "progressShown s = progressShown t"
  shows "diagnosticCollection (checkDocumentPolicies h d s) =
           diagnosticCollection (checkDocumentPolicies h d t)"
    and "checkRequests (checkDocumentPolicies h d s) = checkRequests (checkDocumentPolicies h d t)"
    and "progressShown (checkDocumentPolicies h d s) = progressShown (checkDocumentPolicies h d t)"
  using assms
  by (simp_all add: checkDocumentPolicies_def updateDiagnostics_def Let_def split: sum.splits)

lemma checkDocumentPolicies_requests:
  "length (checkRequests (checkDocumentPolicies h d s)) \<le> Suc (length (checkRequests s))"
  by (simp add: checkDocumentPolicies_def updateDiagnostics_def Let_def split: sum.splits)

lemma scan_files_cut:
  assumes "c \<le> k"
  shows "scan_files h (\<lambda>n. k \<le> n) tot fs c st =
         scan_files h (\<lambda>n. False) tot (take (k - c) fs) c st"
  using assms
proof (induction fs arbitrary: c st)
  case Nil
  then show ?case by simp
next
  case (Cons f fs)
  show ?case
  proof (cases "k \<le> c")
    case True
    then show ?thesis by simp
  next
    case False
    then have lt: "c < k" by simp
    then obtain j where j: "k - c = Suc j" "k - (c + 1) = j"
      by (cases "k - c") auto
    have le: "c + 1 \<le> k" using lt by simp
    show ?thesis
      using False j Cons.IH [OF le] by (simp add: Let_def)
  qed
qed

lemma scan_files_core:
  assumes "diagnosticCollection s = diagnosticCollection t"
    and "checkRequests s = checkRequests t" and "progressShown s = progressShown t"
  shows "fst (scan_files h tok tot fs c s) = fst (scan_files h tok tot2 fs c t)
       \<and> diagnosticCollection (snd (scan_files h tok tot fs c s)) =
           diagnosticCollection (snd (scan_files h tok tot2 fs c t))
       \<and> checkRequests (snd (scan_files h tok tot fs c s)) =
           checkRequests (snd (scan_files h tok tot2 fs c t))
       \<and> progressShown (snd (scan_files h tok tot fs c s)) =
           progressShown (snd (scan_files h tok tot2 fs c t))"
  using assms
proof (induction fs arbitrary: c s t)
  case Nil
  then show ?case by simp
next
  case (Cons f fs)
  show ?case
  proof (cases "tok c")
    case True
    then show ?thesis using Cons.prems by simp
  next
    case False
    show ?thesis
    proof (cases "openTextDocument h f")
      case (Inl err)
      show ?thesis
        using False Inl Cons.prems
        by (simp add: Let_def) (rule Cons.IH, simp_all)
    next
      case (Inr d)
      show ?thesis
        using False Inr checkDocumentPolicies_core [OF Cons.prems, of h d]
        by (simp add: Let_def) (rule Cons.IH, simp_all)
    qed
  qed
qed

lemma scan_files_requests:
  "length (checkRequests (snd (scan_files h tok tot fs c st))) \<le>
     length (checkRequests st) + length fs"
proof (induction fs arbitrary: c st)
  case Nil
  show ?case by simp
next
  case (Cons f fs)
  show ?case
  proof (cases "tok c")
    case True
    then show ?thesis by simp
  next
    case False
    show ?thesis
    proof (cases "openTextDocument h f")
      case (Inl err)
      show ?thesis
        using False Inl
          Cons.IH [of "c + 1" "st\<lparr>ui := ui st @ [ConsoleErr (''Error checking policies for '' @ fsPath f @ '':''),
              ProgressReport (c + 1) tot]\<rparr>"]
        by (simp add: Let_def)
    next
      case (Inr d)
      show ?thesis
        using False Inr checkDocumentPolicies_requests [of h d st]
          Cons.IH [of "c + 1" "(checkDocumentPolicies h d st)\<lparr>ui := ui (checkDocumentPolicies h d st) @
              [ProgressReport (c + 1) tot]\<rparr>"]
        by (simp add: Let_def)
    qed
  qed
qed

lemma token_of_finished: "token_of mo = (\<lambda>n. files_finished mo \<le> n)"
  by (cases mo) (auto simp: fun_eq_iff)

lemma scan_files_count:
  "fst (scan_files h (\<lambda>n. False) tot fs c st) = c + length fs"
  by (induction fs arbitrary: c st) (simp_all add: Let_def)

text \<open>
  C9, as stated: when cancellation is requested after \<open>k\<close> files have been processed, no
  policy check is sent beyond those \<open>k\<close>. The loop reads the flag once per file, before
  it opens the file; a request that arrives while the next file is being opened comes after
  that reading, and the check of that file is still sent. Here one file has been processed
  when the request arrives, and two checks are sent.
\<close>

theorem cancel_while_opening_counterexample:
  "checkRequests (checkAllPolicies sample_host (token_of (WhileOpening (Suc 0))) empty_scan) =
     [\<lparr>filePath = ''/ws/a.ts'', fileContent = ''let x = 1'', language = ''typescript''\<rparr>,
      \<lparr>filePath = ''/ws/b.ts'', fileContent = ''let x = 1'', language = ''typescript''\<rparr>]
   \<and> length (checkRequests
       (checkAllPolicies sample_host (token_of (WhileOpening (Suc 0))) empty_scan)) = 2"
  by (simp add: checkAllPolicies_def sample_host_def empty_scan_def file_uri_def
      checkDocumentPolicies_def checkPolicies_def updateDiagnostics_def Let_def)

text \<open>
  C9, amended. The scan reads the cancellation flag once per file, before it opens the
  file. When cancellation is requested after \<open>k\<close> files have been processed and before
  the flag is read for the next file, no policy check is sent beyond those \<open>k\<close>; when it
  is requested while the next file is being opened or checked, that file is finished and
  no check is sent beyond it. With \<open>m\<close> the number of files finished so (\<open>k\<close> or
  \<open>k + 1\<close>), the checks sent and the diagnostics set are those of a scan of the first
  \<open>m\<close> files, so what was produced remains; and when the scan is cut short, it returns in
  the state the loop reached after those \<open>m\<close> files, with nothing more reported or
  shown, no completion message, and the progress notification taken down.
\<close>

theorem cancelled_scan_stops:
  assumes "workspaceFolders h = Some folders"
  shows "checkRequests (checkAllPolicies h (token_of mo) st) =
           checkRequests (checkAllPolicies
             (h\<lparr>findFiles := take (files_finished mo) (findFiles h)\<rparr>) (\<lambda>n. False) st)
       \<and> diagnosticCollection (checkAllPolicies h (token_of mo) st) =
           diagnosticCollection (checkAllPolicies
             (h\<lparr>findFiles := take (files_finished mo) (findFiles h)\<rparr>) (\<lambda>n. False) st)
       \<and> length (checkRequests (checkAllPolicies h (token_of mo) st)) \<le>
           length (checkRequests st) + files_finished mo
       \<and> (files_finished mo \<le> length (findFiles h) \<longrightarrow>
            checkAllPolicies h (token_of mo) st =
              (snd (scan_files h (\<lambda>n. False) (length (findFiles h))
                      (take (files_finished mo) (findFiles h)) 0
                      (st\<lparr>progressShown := True\<rparr>)))\<lparr>progressShown := False\<rparr>)"
proof -
  let ?k = "files_finished mo"
  let ?h' = "h\<lparr>findFiles := take ?k (findFiles h)\<rparr>"
  let ?s0 = "st\<lparr>progressShown := True\<rparr>"
  let ?cut = "scan_files h (\<lambda>n. False) (length (findFiles h)) (take ?k (findFiles h)) 0 ?s0"
  let ?full = "scan_files ?h' (\<lambda>n. False) (length (take ?k (findFiles h))) (take ?k (findFiles h)) 0 ?s0"
  have cut: "scan_files h (token_of mo) (length (findFiles h)) (findFiles h) 0 ?s0 = ?cut"
    using scan_files_cut [of 0 ?k h "length (findFiles h)" "findFiles h" ?s0]
    by (simp add: token_of_finished)
  have same_host: "scan_files ?h' tok tot fs c s = scan_files h tok tot fs c s"
    for tok tot fs c s
  proof (induction fs arbitrary: c s)
    case Nil
    show ?case by simp
  next
    case (Cons f fs)
    have doc: "checkDocumentPolicies ?h' d s = checkDocumentPolicies h d s" for d
      by (simp add: checkDocumentPolicies_def)
    show ?case by (simp add: doc Cons.IH Let_def split: sum.splits)
  qed
  have core: "diagnosticCollection (snd ?cut) = diagnosticCollection (snd ?full)"
    "checkRequests (snd ?cut) = checkRequests (snd ?full)"
    using scan_files_core [of ?s0 ?s0 h "\<lambda>n. False" "length (findFiles h)"
        "take ?k (findFiles h)" 0 "length (take ?k (findFiles h))"]
    by (simp_all add: same_host)
  have bound: "length (checkRequests (snd ?cut)) \<le> length (checkRequests st) + ?k"
    using scan_files_requests [of h "\<lambda>n. False" "length (findFiles h)" "take ?k (findFiles h)" 0 ?s0]
    by simp
  have left: "checkRequests (checkAllPolicies h (token_of mo) st) = checkRequests (snd ?cut)"
    "diagnosticCollection (checkAllPolicies h (token_of mo) st) = diagnosticCollection (snd ?cut)"
    using assms by (simp_all add: checkAllPolicies_def cut Let_def split_def)
  have right: "checkRequests (checkAllPolicies ?h' (\<lambda>n. False) st) = checkRequests (snd ?full)"
    "diagnosticCollection (checkAllPolicies ?h' (\<lambda>n. False) st) = diagnosticCollection (snd ?full)"
    using assms by (simp_all add: checkAllPolicies_def Let_def split_def)
  have short: "checkAllPolicies h (token_of mo) st = (snd ?cut)\<lparr>progressShown := False\<rparr>"
    if "?k \<le> length (findFiles h)"
  proof -
    have "fst ?cut = ?k"
      using that by (simp add: scan_files_count)
    then have "token_of mo (fst ?cut)"
      by (simp add: token_of_finished)
    then show ?thesis
      using assms by (simp add: checkAllPolicies_def cut Let_def split_def)
  qed
  show ?thesis
    using left right core bound short by simp
qed

theorem cancelled_scan_stops_witness:
  "checkRequests (checkAllPolicies sample_host (token_of (BetweenFiles (Suc 0))) empty_scan) =
     [\<lparr>filePath = ''/ws/a.ts'', fileContent = ''let x = 1'', language = ''typescript''\<rparr>]
   \<and> diagnosticCollection (checkAllPolicies sample_host (token_of (BetweenFiles (Suc 0))) empty_scan)
       (file_uri ''/ws/a.ts'') = Some [to_diagnostic sample_violation]
   \<and> diagnosticCollection (checkAllPolicies sample_host (token_of (BetweenFiles (Suc 0))) empty_scan)
       (file_uri ''/ws/b.ts'') = None
   \<and> ui (checkAllPolicies sample_host (token_of (BetweenFiles (Suc 0))) empty_scan) =
       [ProgressReport 1 3]
   \<and> \<not> progressShown (checkAllPolicies sample_host (token_of (BetweenFiles (Suc 0))) empty_scan)"
proof -
  have a: "workspaceFolders sample_host = Some [''/ws'']"
    by (simp add: sample_host_def)
  have b: "checkRequests (checkAllPolicies
             (sample_host\<lparr>findFiles := take (Suc 0) (findFiles sample_host)\<rparr>) (\<lambda>n. False) empty_scan) =
           [\<lparr>filePath = ''/ws/a.ts'', fileContent = ''let x = 1'', language = ''typescript''\<rparr>]"
    "diagnosticCollection (checkAllPolicies
             (sample_host\<lparr>findFiles := take (Suc 0) (findFiles sample_host)\<rparr>) (\<lambda>n. False) empty_scan) =
           [file_uri ''/ws/a.ts'' \<mapsto> [to_diagnostic sample_violation]]"
    by (simp_all add: checkAllPolicies_def sample_host_def empty_scan_def file_uri_def
        checkDocumentPolicies_def checkPolicies_def updateDiagnostics_def Let_def)
  have c: "files_finished (BetweenFiles (Suc 0)) \<le> length (findFiles sample_host)"
    by (simp add: sample_host_def)
  have d: "snd (scan_files sample_host (\<lambda>n. False) (length (findFiles sample_host))
                 (take (Suc 0) (findFiles sample_host)) 0 (empty_scan\<lparr>progressShown := True\<rparr>)) =
           \<lparr>diagnosticCollection = [file_uri ''/ws/a.ts'' \<mapsto> [to_diagnostic sample_violation]],
            checkRequests =
              [\<lparr>filePath = ''/ws/a.ts'', fileContent = ''let x = 1'', language = ''typescript''\<rparr>],
            ui = [ProgressReport 1 3], progressShown = True\<rparr>"
    by (simp add: sample_host_def empty_scan_def file_uri_def checkDocumentPolicies_def
        checkPolicies_def updateDiagnostics_def Let_def)
  show ?thesis
    using cancelled_scan_stops [OF a, of "BetweenFiles (Suc 0)" empty_scan] c
    by (simp add: b d file_uri_def)
qed

end
